theory Spec2Isabelle
  imports Main
begin

section \<open>Python strings\<close>

text \<open>
  A Python \<open>str\<close> is modelled as a \<open>string\<close>, one \<open>char\<close> per code point, for texts
  whose code points lie below 256.  \<open>is_space\<close> is \<open>str.isspace\<close> on one character, which
  is also the class \<open>\s\<close> of the \<open>re\<close> module for \<open>str\<close> patterns: the ASCII white
  space, the separators 0x1C to 0x1F, NEL (0x85) and the no-break space (0xA0).
  \<open>is_digit\<close> is the class \<open>\d\<close>, which below 256 has the ten ASCII digits only.
\<close>

definition NL :: char where
  "NL = CHR 0x0A"

definition is_space :: "char \<Rightarrow> bool" where
  "is_space c = (of_char c \<in> {9, 10, 11, 12, 13, 28, 29, 30, 31, 32, 133, 160 :: nat})"

definition is_digit :: "char \<Rightarrow> bool" where
  "is_digit c = (48 \<le> (of_char c :: nat) \<and> (of_char c :: nat) \<le> 57)"

definition in_range :: "char \<Rightarrow> char \<Rightarrow> char \<Rightarrow> bool" where
  "in_range lo hi c = ((of_char lo :: nat) \<le> of_char c \<and> (of_char c :: nat) \<le> of_char hi)"

text \<open>\<open>s.strip()\<close>: white space removed at both ends.\<close>

definition strip :: "string \<Rightarrow> string" where
  "strip s = rev (dropWhile is_space (rev (dropWhile is_space s)))"

text \<open>\<open>s.split(sep)\<close> for a separator of one character: never an empty list.\<close>

fun split_on :: "char \<Rightarrow> string \<Rightarrow> string list" where
  "split_on sep [] = [[]]"
| "split_on sep (c # cs) =
     (if c = sep then [] # split_on sep cs
      else (case split_on sep cs of [] \<Rightarrow> [[c]] | l # ls \<Rightarrow> (c # l) # ls))"

text \<open>\<open>sep.join(xs)\<close>.\<close>

fun join :: "string \<Rightarrow> string list \<Rightarrow> string" where
  "join sep [] = []"
| "join sep [x] = x"
| "join sep (x # y # ys) = x @ sep @ join sep (y # ys)"



text \<open>\<open>s.startswith(p)\<close>.\<close>

definition startswith :: "string \<Rightarrow> string \<Rightarrow> bool" where
  "startswith s p = (take (length p) s = p)"

text \<open>The exceptions that the modelled code can raise.\<close>

datatype py_error = ValueError | TypeError | AttributeError | ServiceError string

text \<open>
  \<open>int(s)\<close> for a string: surrounding white space is ignored, a sign may lead, and the
  digits may be grouped by single underscores; any other string raises \<open>ValueError\<close>.
  The result is unbounded.  (The length limit that recent CPython versions put on the
  conversion is not modelled.)
\<close>

fun int_literal :: "string \<Rightarrow> bool" where
  "int_literal [] = False"
| "int_literal [c] = is_digit c"
| "int_literal (c # d # cs) =
     (is_digit c \<and> (if d = CHR ''_'' then int_literal cs else int_literal (d # cs)))"

definition digits_value :: "string \<Rightarrow> nat" where
  "digits_value ds = foldl (\<lambda>a c. 10 * a + (of_char c - 48)) 0 ds"

definition py_int :: "string \<Rightarrow> py_error + int" where
  "py_int s =
     (let t = strip s;
          neg = (t \<noteq> [] \<and> hd t = CHR ''-'');
          body = (if t \<noteq> [] \<and> (hd t = CHR ''-'' \<or> hd t = CHR ''+'') then tl t else t)
      in if int_literal body
         then Inr ((if neg then - 1 else 1) * int (digits_value (filter is_digit body)))
         else Inl ValueError)"

section \<open>The regular expressions of the \<open>re\<close> module\<close>

text \<open>
  The program parses every response with \<open>re.search\<close>, \<open>re.findall\<close>, \<open>re.finditer\<close>,
  \<open>re.match\<close> and \<open>re.sub\<close>.  A pattern is a term of type \<open>regex\<close>; \<open>Star True r\<close> is
  the greedy \<open>r*\<close> and \<open>Star False r\<close> the lazy \<open>r*?\<close>, \<open>Grp n r\<close> is the n-th capturing
  group, \<open>Ahead r\<close> the lookahead \<open>(?=r)\<close>, and \<open>Bol\<close>, \<open>Eol\<close>, \<open>EndZ\<close> are \<open>^\<close>, \<open>$\<close> and
  \<open>\Z\<close>.  The flags \<open>re.MULTILINE\<close> and \<open>re.DOTALL\<close> are passed to the matcher.
\<close>

datatype citem = CChar char | CRange char char | CSpace | CDigit

fun citem_match :: "citem \<Rightarrow> char \<Rightarrow> bool" where
  "citem_match (CChar a) c = (c = a)"
| "citem_match (CRange lo hi) c = in_range lo hi c"
| "citem_match CSpace c = is_space c"
| "citem_match CDigit c = is_digit c"

definition cls_match :: "citem list \<Rightarrow> char \<Rightarrow> bool" where
  "cls_match items c = list_ex (\<lambda>i. citem_match i c) items"

datatype regex =
    Chr char
  | Dot
  | Cls "citem list"
  | Bol
  | Eol
  | EndZ
  | Eps
  | Seq regex regex
  | Alt regex regex
  | Star bool regex
  | Grp nat regex
  | Ahead regex

datatype flags = Flags (multiline: bool) (dotall: bool)

text \<open>
  A matcher state: the character before the current position (none at the start of the
  text), the text from the current position on, and the groups captured so far (the
  most recent binding of a group first).
\<close>

datatype mstate = MState (prev: "char option") (rest: string) (groups: "(nat \<times> string) list")

definition step_char :: "(char \<Rightarrow> bool) \<Rightarrow> mstate \<Rightarrow> mstate list" where
  "step_char p s =
     (case rest s of [] \<Rightarrow> []
      | x # xs \<Rightarrow> if p x then [MState (Some x) xs (groups s)] else [])"

definition consumed :: "mstate \<Rightarrow> mstate \<Rightarrow> string" where
  "consumed s s' = take (length (rest s) - length (rest s')) (rest s)"

text \<open>
  \<open>ms fl r s\<close> lists the states in which a match of \<open>r\<close> started in \<open>s\<close> can end, in the
  order in which the backtracking matcher of \<open>re\<close> tries them: the match that \<open>re\<close>
  reports is the first of the list, and the pattern fails where the list is empty.
  An iteration of a starred pattern that consumes nothing is not repeated.
\<close>

function (sequential) ms :: "flags \<Rightarrow> regex \<Rightarrow> mstate \<Rightarrow> mstate list" where
  "ms fl (Chr c) s = step_char (\<lambda>x. x = c) s"
| "ms fl Dot s = step_char (\<lambda>x. dotall fl \<or> x \<noteq> NL) s"
| "ms fl (Cls items) s = step_char (cls_match items) s"
| "ms fl Bol s = (if prev s = None \<or> (multiline fl \<and> prev s = Some NL) then [s] else [])"
| "ms fl Eol s =
     (case rest s of [] \<Rightarrow> [s]
      | x # xs \<Rightarrow> if x = NL \<and> (multiline fl \<or> xs = []) then [s] else [])"
| "ms fl EndZ s = (if rest s = [] then [s] else [])"
| "ms fl Eps s = [s]"
| "ms fl (Seq a b) s = concat (map (ms fl b) (ms fl a s))"
| "ms fl (Alt a b) s = ms fl a s @ ms fl b s"
| "ms fl (Star g r) s =
     (let more = concat (map (\<lambda>s'. if length (rest s') < length (rest s)
                                     then ms fl (Star g r) s' else [])
                             (ms fl r s))
      in if g then more @ [s] else s # more)"
| "ms fl (Grp n r) s =
     map (\<lambda>s'. MState (prev s') (rest s') ((n, consumed s s') # groups s')) (ms fl r s)"
| "ms fl (Ahead r) s =
     (case ms fl r s of [] \<Rightarrow> [] | s' # _ \<Rightarrow> [MState (prev s) (rest s) (groups s')])"
  by pat_completeness auto
termination
  by (relation "measures [\<lambda>(fl, r, s). size r, \<lambda>(fl, r, s). length (rest s)]") auto

text \<open>A literal string, a sequence of patterns, \<open>r+\<close> / \<open>r+?\<close> and \<open>r?\<close>.\<close>

primrec lit :: "string \<Rightarrow> regex" where
  "lit [] = Eps"
| "lit (c # cs) = Seq (Chr c) (lit cs)"

primrec cat :: "regex list \<Rightarrow> regex" where
  "cat [] = Eps"
| "cat (r # rs) = Seq r (cat rs)"

definition Plus :: "bool \<Rightarrow> regex \<Rightarrow> regex" where
  "Plus g r = Seq r (Star g r)"

definition Opt :: "regex \<Rightarrow> regex" where
  "Opt r = Alt r Eps"

text \<open>
  A match object is the pair of the state where the match starts and the state where it
  ends.  \<open>group m n\<close> is \<open>m.group(n)\<close> for \<open>n > 0\<close> (\<open>None\<close> for a group that did not take
  part), \<open>group0 m\<close> is the matched text.
\<close>

type_synonym match = "mstate \<times> mstate"

definition group :: "match \<Rightarrow> nat \<Rightarrow> string option" where
  "group m n = map_of (groups (snd m)) n"

definition group0 :: "match \<Rightarrow> string" where
  "group0 m = consumed (fst m) (snd m)"

text \<open>
  The scan of \<open>re.search\<close>: the first position, from the state \<open>s\<close> on, at which the
  pattern matches.  With \<open>adv\<close> (the \<open>must_advance\<close> flag that \<open>finditer\<close> sets after an
  empty match) an empty match at the first position is not accepted.
\<close>

function search :: "flags \<Rightarrow> regex \<Rightarrow> bool \<Rightarrow> mstate \<Rightarrow> match option" where
  "search fl r adv s =
     (case find (\<lambda>e. \<not> adv \<or> length (rest e) < length (rest s)) (ms fl r s) of
        Some e \<Rightarrow> Some (s, e)
      | None \<Rightarrow> (case rest s of [] \<Rightarrow> None
                 | x # xs \<Rightarrow> search fl r False (MState (Some x) xs [])))"
  by pat_completeness auto
termination
  by (relation "measure (\<lambda>(fl, r, adv, s). length (rest s))") auto

definition re_search :: "flags \<Rightarrow> regex \<Rightarrow> string \<Rightarrow> match option" where
  "re_search fl r text = search fl r False (MState None text [])"

definition re_match :: "flags \<Rightarrow> regex \<Rightarrow> string \<Rightarrow> match option" where
  "re_match fl r text =
     (case ms fl r (MState None text []) of [] \<Rightarrow> None
      | e # _ \<Rightarrow> Some (MState None text [], e))"

subsection \<open>\<open>finditer\<close>, \<open>findall\<close> and \<open>sub\<close>\<close>

text \<open>
  The starred equation of \<open>ms\<close> rewrites a call of \<open>ms\<close> into one of the same shape; it
  is applied by hand.
\<close>

lemmas ms_Star = ms.simps(10)

declare ms.simps(10) [simp del]

text \<open>A match never moves backwards: the state it ends in holds a suffix of the text.\<close>

definition sfx :: "mstate \<Rightarrow> mstate \<Rightarrow> bool" where
  "sfx s e = (\<exists>cs. rest s = cs @ rest e)"

lemma sfx_refl: "sfx s s"
  by (simp add: sfx_def)

lemma sfx_trans: "sfx a b \<Longrightarrow> sfx b c \<Longrightarrow> sfx a c"
  unfolding sfx_def by (metis append.assoc)

lemma sfx_rest: "rest e = rest s \<Longrightarrow> sfx s e"
  by (simp add: sfx_def)

lemma step_char_suffix: "e \<in> set (step_char p s) \<Longrightarrow> \<exists>c. rest s = c # rest e"
  by (cases "rest s") (auto simp: step_char_def split: if_splits)

lemma ms_suffix: "e \<in> set (ms fl r s) \<Longrightarrow> sfx s e"
proof (induction fl r s arbitrary: e rule: ms.induct)
  case (8 fl a b s)
  then obtain m where "m \<in> set (ms fl a s)" "e \<in> set (ms fl b m)" by auto
  with 8 show ?case by (blast intro: sfx_trans)
next
  case (9 fl a b s)
  then show ?case by auto
next
  case (10 fl g r s)
  from "10.prems" have "e = s \<or> (\<exists>m \<in> set (ms fl r s).
      length (rest m) < length (rest s) \<and> e \<in> set (ms fl (Star g r) m))"
    by (auto simp: ms_Star[of fl g r s] Let_def split: if_splits)
  then show ?case
  proof
    assume "e = s"
    then show ?thesis by (simp add: sfx_refl)
  next
    assume "\<exists>m \<in> set (ms fl r s).
      length (rest m) < length (rest s) \<and> e \<in> set (ms fl (Star g r) m)"
    then obtain m where m: "m \<in> set (ms fl r s)" "length (rest m) < length (rest s)"
      "e \<in> set (ms fl (Star g r) m)" by blast
    from "10.IH"(1)[OF m(1)] "10.IH"(2)[OF m(1) m(2) m(3)] show ?thesis
      by (rule sfx_trans)
  qed
next
  case (11 fl n r s)
  then obtain m where m: "m \<in> set (ms fl r s)" "rest e = rest m" by auto
  from "11.IH"[OF m(1)] m(2) show ?case by (simp add: sfx_def)
next
  case (12 fl r s)
  then show ?case by (auto split: list.splits intro: sfx_rest)
qed (auto dest: step_char_suffix simp: sfx_def split: if_splits list.splits)

lemma ms_length: "e \<in> set (ms fl r s) \<Longrightarrow> length (rest e) \<le> length (rest s)"
  by (drule ms_suffix) (auto simp: sfx_def)

lemma search_sound:
  "search fl r adv s = Some (b, e) \<Longrightarrow>
     e \<in> set (ms fl r b) \<and> length (rest b) \<le> length (rest s) \<and>
     (adv \<and> length (rest b) = length (rest s) \<longrightarrow> length (rest e) < length (rest b))"
proof (induction fl r adv s rule: search.induct)
  case (1 fl r adv s)
  show ?case
  proof (cases "find (\<lambda>e. \<not> adv \<or> length (rest e) < length (rest s)) (ms fl r s)")
    case (Some e')
    with "1.prems" have "b = s" "e = e'" by auto
    with Some show ?thesis by (auto simp: find_Some_iff)
  next
    case None
    with "1.prems" obtain x xs where xs: "rest s = x # xs"
      and rec: "search fl r False (MState (Some x) xs []) = Some (b, e)"
      by (auto split: list.splits)
    from "1.IH"[OF None xs rec] xs show ?thesis by auto
  qed
qed

declare search.simps [simp del]

text \<open>
  The loop shared by \<open>re.finditer\<close>, \<open>re.findall\<close> and \<open>re.sub\<close>: the next scan starts
  where the last match ended, with fresh groups, and must advance when that match was
  empty.
\<close>

function finditer_from :: "flags \<Rightarrow> regex \<Rightarrow> bool \<Rightarrow> mstate \<Rightarrow> match list" where
  "finditer_from fl r adv s =
     (case search fl r adv s of None \<Rightarrow> []
      | Some (b, e) \<Rightarrow>
          (b, e) # finditer_from fl r (length (rest e) = length (rest b))
                     (MState (prev e) (rest e) []))"
  by pat_completeness auto
termination
proof (relation "measures [\<lambda>(fl, r, adv, s). length (rest s),
                           \<lambda>(fl, r, adv, s). if adv then 0 else 1]", goal_cases)
  case 1
  then show ?case by simp
next
  case (2 fl r adv s x b e)
  from search_sound[of fl r adv s b e] 2 ms_length[of e fl r b]
  show ?case by auto
qed

declare finditer_from.simps [simp del]

definition re_finditer :: "flags \<Rightarrow> regex \<Rightarrow> string \<Rightarrow> match list" where
  "re_finditer fl r text = finditer_from fl r False (MState None text [])"

text \<open>
  \<open>re.findall\<close> on a pattern with several groups returns one tuple of group texts per
  match, with the empty string for a group that did not take part.
\<close>

definition group_text :: "match \<Rightarrow> nat \<Rightarrow> string" where
  "group_text m n = (case group m n of None \<Rightarrow> [] | Some g \<Rightarrow> g)"


definition re_findall4 ::
  "flags \<Rightarrow> regex \<Rightarrow> string \<Rightarrow> (string \<times> string \<times> string \<times> string) list" where
  "re_findall4 fl r text =
     map (\<lambda>m. (group_text m 1, group_text m 2, group_text m 3, group_text m 4))
         (re_finditer fl r text)"

text \<open>\<open>re.sub(pattern, repl, text)\<close> for a replacement without group references.\<close>

fun sub_build :: "string \<Rightarrow> string \<Rightarrow> match list \<Rightarrow> string" where
  "sub_build repl cur [] = cur"
| "sub_build repl cur (m # matches) =
     take (length cur - length (rest (fst m))) cur @ repl @ sub_build repl (rest (snd m)) matches"

definition re_sub :: "flags \<Rightarrow> regex \<Rightarrow> string \<Rightarrow> string \<Rightarrow> string" where
  "re_sub fl r repl text = sub_build repl text (re_finditer fl r text)"

abbreviation WS :: regex where
  "WS \<equiv> Cls [CSpace]"

abbreviation DIGIT :: regex where
  "DIGIT \<equiv> Cls [CDigit]"

abbreviation no_flags :: flags where
  "no_flags \<equiv> Flags False False"

section \<open>The completion service\<close>

text \<open>
  \<open>azure_openai_client.chat.completions.create(model, messages, max_tokens)\<close> followed by
  \<open>response.choices[0].message.content\<close>: the service receives a request and either
  raises or answers with a text.  The service is outside the program; it is a parameter
  of the model, with a state of its own that every call may change, so that a run
  records whether the service was called.
\<close>

record request =
  model :: string
  messages :: "(string \<times> string) list"
  max_tokens :: nat

type_synonym 'w client = "request \<Rightarrow> 'w \<Rightarrow> (py_error + string) \<times> 'w"

text \<open>
  \<open>HTTPException(status_code, detail)\<close>; the detail is a fixed prefix followed by the
  text of the exception caught, which is kept here as the exception itself.
\<close>

datatype http_exception = HTTPException nat string py_error

text \<open>\<open>str(n)\<close> for a natural number, and the numbered list \<open>"1. q1\n2. q2 ..."\<close>.\<close>

fun show_nat :: "nat \<Rightarrow> string" where
  "show_nat n =
     (if n < 10 then [char_of (48 + n)]
      else show_nat (n div 10) @ [char_of (48 + n mod 10)])"

definition numbered_list :: "string list \<Rightarrow> string" where
  "numbered_list qs =
     join [NL] (map (\<lambda>(i, q). show_nat (i + 1) @ ''. '' @ q) (enumerate 0 qs))"

section \<open>Resume scoring (backend/service.py, \<open>score_resume_against_jd\<close>)\<close>









text \<open>
  \<open>STRENGTHS:\s*\n((?:-\s*.*\n?)+?)(?=\n[A-Z_]+:|IMPORTANT INSTRUCTIONS:|\[END\]|$)\<close>,
  with \<open>re.MULTILINE | re.DOTALL\<close>
\<close>

abbreviation HEADER_CHAR :: regex where
  "HEADER_CHAR \<equiv> Cls [CRange (CHR ''A'') (CHR ''Z''), CChar (CHR ''_'')]"

abbreviation BULLETS :: regex where
  "BULLETS \<equiv> Plus False (cat [Chr (CHR ''-''), Star True WS, Star True Dot, Opt (Chr NL)])"











section \<open>Question lists (backend/service.py, \<open>_parse_generated_questions\<close>)\<close>

text \<open>\<open>^\s*\d+[\.\)]\s*(.*?)(?=\n\s*\d+[\.\)]|\n\n|\Z)\<close>, with \<open>re.DOTALL | re.MULTILINE\<close>\<close>

abbreviation NUM_END :: regex where
  "NUM_END \<equiv> Cls [CChar (CHR ''.''), CChar (CHR '')'')]"

definition question_re :: regex where
  "question_re =
     cat [Bol, Star True WS, Plus True DIGIT, NUM_END, Star True WS,
          Grp 1 (Star False Dot),
          Ahead (Alt (cat [Chr NL, Star True WS, Plus True DIGIT, NUM_END])
                (Alt (lit [NL, NL]) EndZ))]"

text \<open>\<open>^\d+[\.\)]\s*.+\<close> (used with \<open>re.match\<close>) and \<open>^\d+[\.\)]\s*\<close> (used with \<open>re.sub\<close>)\<close>

definition numbered_line_re :: regex where
  "numbered_line_re = cat [Bol, Plus True DIGIT, NUM_END, Star True WS, Plus True Dot]"

definition number_prefix_re :: regex where
  "number_prefix_re = cat [Bol, Plus True DIGIT, NUM_END, Star True WS]"

text \<open>The first loop: the stripped, non-empty group of every match.\<close>

fun parsed_matches_of :: "match list \<Rightarrow> py_error + string list" where
  "parsed_matches_of [] = Inr []"
| "parsed_matches_of (m # matches) =
     (case group m 1 of None \<Rightarrow> Inl AttributeError
      | Some g \<Rightarrow>
          (case parsed_matches_of matches of Inl e \<Rightarrow> Inl e
           | Inr qs \<Rightarrow> Inr (if strip g \<noteq> [] then strip g # qs else qs)))"

text \<open>The fallback loop over the lines of the text.\<close>

fun fallback_questions :: "string list \<Rightarrow> string list" where
  "fallback_questions [] = []"
| "fallback_questions (l # others) =
     (let line = strip l in
      if re_match no_flags numbered_line_re line \<noteq> None
      then strip (re_sub no_flags number_prefix_re [] line) # fallback_questions others
      else if line \<noteq> [] then line # fallback_questions others
      else fallback_questions others)"

definition parse_generated_questions :: "string \<Rightarrow> py_error + string list" where
  "parse_generated_questions question_text =
     (case parsed_matches_of (re_finditer (Flags True True) question_re question_text) of
        Inl e \<Rightarrow> Inl e
      | Inr parsed_matches \<Rightarrow>
          if parsed_matches = []
          then Inr (filter (\<lambda>q. q \<noteq> []) (fallback_questions (split_on NL question_text)))
          else Inr parsed_matches)"


section \<open>Coverage analysis (backend/service.py, \<open>analyze_interview_questions\<close>)\<close>

definition coverage_prompt :: "string \<Rightarrow> string \<Rightarrow> string" where
  \<open>coverage_prompt ai_questions_formatted_for_prompt conversation_transcript =
     ''You are an expert interviewer and interview analysis AI. Your task is to '' @
     ''analyze a conversation transcript against a list of pre-generated interview '' @
     ''questions.\<newline>'' @
     ''\<newline>'' @
     ''**Instructions:**\<newline>'' @
     ''1.  **Identify Covered Generated Questions:** From the \'PRE-GENERATED QUESTIONS\' '' @
     ''list, identify and list     ALL questions that were clearly asked or semantically '' @
     ''covered by the interviewer in the \'INTERVIEW TRANSCRIPT\'.     The exact '' @
     ''phrasing does not need to match, but the essence of the question from the '' @
     ''\'PRE-GENERATED QUESTIONS\' list must be clearly addressed.\<newline>'' @
     ''2.  **Identify Uncovered Generated Questions:** From the \'PRE-GENERATED '' @
     ''QUESTIONS\' list, identify and list     ALL questions that were *not* covered '' @
     ''by the interviewer in the transcript.\<newline>'' @
     ''3.  **Identify Interviewer\'s Own Questions:** List any distinct questions '' @
     ''asked by the interviewer in the     \'INTERVIEW TRANSCRIPT\' that are *not* '' @
     ''semantically similar to any of the \'PRE-GENERATED QUESTIONS\'.     Focus '' @
     ''only on explicit questions ending in \'?\' or clear interrogative phrases '' @
     ''from the interviewer\'s side.\<newline>'' @
     ''\<newline>'' @
     ''**PRE-GENERATED QUESTIONS (Exactly as provided, use these for comparison):**\<newline>'' @
     ai_questions_formatted_for_prompt @
     ''\<newline>'' @
     ''\<newline>'' @
     ''**INTERVIEW TRANSCRIPT:**\<newline>'' @
     conversation_transcript @
     ''\<newline>'' @
     ''\<newline>'' @
     ''**OUTPUT FORMAT (Strict Adherence):**\<newline>'' @
     ''\<newline>'' @
     ''COVERED_GENERATED_QUESTIONS:\<newline>'' @
     ''- [Full text of AI-generated question 1 that was covered]\<newline>'' @
     ''- [Full text of AI-generated question 2 that was covered]\<newline>'' @
     ''...\<newline>'' @
     ''\<newline>'' @
     ''UNCOVERED_GENERATED_QUESTIONS:\<newline>'' @
     ''- [Full text of AI-generated question 1 that was NOT covered]\<newline>'' @
     ''- [Full text of AI-generated question 2 that was NOT covered]\<newline>'' @
     ''...\<newline>'' @
     ''\<newline>'' @
     ''INTERVIEWER_OWN_QUESTIONS:\<newline>'' @
     ''- [Full text of interviewer\'s unique question 1]\<newline>'' @
     ''- [Full text of interviewer\'s unique question 2]\<newline>'' @
     ''...''\<close>

definition coverage_system :: string where
  \<open>coverage_system =
     ''You are a precise interview analysis AI. You categorize questions based '' @
     ''on a given list and transcript content, strictly adhering to output formats. '' @
     ''Do not hallucinate or create new questions for coverage analysis.''\<close>

definition coverage_request :: "string \<Rightarrow> string list \<Rightarrow> string \<Rightarrow> request" where
  "coverage_request deployment_name ai_generated_questions_list conversation_transcript =
     \<lparr>model = deployment_name,
      messages = [(''system'', coverage_system),
                  (''user'', coverage_prompt (numbered_list ai_generated_questions_list)
                                             conversation_transcript)],
      max_tokens = 1500\<rparr>"

text \<open>
  The pattern of the local function \<open>parse_section\<close>,
  \<open>{section_name}:\s*\n((?:-\s*.*\n?)+?)(?=\n[A-Z_]+:|\n\Z|$)\<close> with
  \<open>re.MULTILINE | re.DOTALL\<close>.  The section name is pasted into the pattern; the three
  names that the program passes consist of capital letters and underscores, which stand
  for themselves in a pattern, so the name is a literal here.
\<close>

definition section_re :: "string \<Rightarrow> regex" where
  "section_re section_name =
     cat [lit section_name, Chr (CHR '':''), Star True WS, Chr NL, Grp 1 BULLETS,
          Ahead (Alt (cat [Chr NL, Plus True HEADER_CHAR, Chr (CHR '':'')])
                (Alt (Seq (Chr NL) EndZ) Eol))]"

definition parse_section :: "string \<Rightarrow> string \<Rightarrow> py_error + string list" where
  "parse_section section_name text_content =
     (case re_search (Flags True True) (section_re section_name) text_content of
        None \<Rightarrow> Inr []
      | Some m \<Rightarrow>
          (case group m 1 of None \<Rightarrow> Inl AttributeError
           | Some g \<Rightarrow>
               Inr (concat (map (\<lambda>line. if startswith (strip line) ''- ''
                                          then [strip (drop 2 line)] else [])
                                (split_on NL (strip g))))))"

record coverage_result =
  coverage_analysis_raw :: string
  covered_generated_questions :: "string list"
  uncovered_generated_questions :: "string list"
  interviewer_own_questions :: "string list"
  original_ai_generated_count :: nat

definition parse_coverage_response :: "nat \<Rightarrow> string \<Rightarrow> py_error + coverage_result" where
  "parse_coverage_response n response_text =
     (case parse_section ''COVERED_GENERATED_QUESTIONS'' response_text of Inl e \<Rightarrow> Inl e
      | Inr covered \<Rightarrow>
     (case parse_section ''UNCOVERED_GENERATED_QUESTIONS'' response_text of Inl e \<Rightarrow> Inl e
      | Inr uncovered \<Rightarrow>
     (case parse_section ''INTERVIEWER_OWN_QUESTIONS'' response_text of Inl e \<Rightarrow> Inl e
      | Inr own \<Rightarrow>
          Inr \<lparr>coverage_analysis_raw = response_text,
               covered_generated_questions = covered,
               uncovered_generated_questions = uncovered,
               interviewer_own_questions = own,
               original_ai_generated_count = n\<rparr>)))"

text \<open>
  The question list is parsed before the \<open>try\<close> block, so an exception of that parse
  leaves the function as it is; the exceptions of the block become an \<open>HTTPException\<close>.
\<close>

datatype failure = Raised py_error | Http http_exception

definition analyze_interview_questions ::
  "'w client \<Rightarrow> string \<Rightarrow> string \<Rightarrow> string \<Rightarrow> 'w \<Rightarrow> (failure + coverage_result) \<times> 'w" where
  "analyze_interview_questions client deployment_name ai_generated_questions_text
       conversation_transcript w =
     (case parse_generated_questions ai_generated_questions_text of
        Inl e \<Rightarrow> (Inl (Raised e), w)
      | Inr ai_generated_questions_list \<Rightarrow>
          (case client (coverage_request deployment_name ai_generated_questions_list
                          conversation_transcript) w of
             (Inl e, w') \<Rightarrow>
               (Inl (Http (HTTPException 500 ''Error during interview question analysis: '' e)), w')
           | (Inr response_text, w') \<Rightarrow>
               (case parse_coverage_response (length ai_generated_questions_list)
                       (strip response_text) of
                  Inl e \<Rightarrow>
                    (Inl (Http (HTTPException 500 ''Error during interview question analysis: '' e)), w')
                | Inr result \<Rightarrow> (Inr result, w'))))"

section \<open>Response evaluation (backend/service.py, \<open>evaluate_candidate_responses_holistically\<close>)\<close>

definition evaluation_prompt :: "string \<Rightarrow> string \<Rightarrow> string \<Rightarrow> string \<Rightarrow> string" where
  \<open>evaluation_prompt questions_list_formatted conversation_transcript jd_text resume_text =
     ''You are an expert interview evaluator. Your task is to meticulously evaluate '' @
     ''the candidate\'s response to EACH question identified as asked during the '' @
     ''interview. Use the provided Job Description and Candidate Resume as context '' @
     ''for evaluation.\<newline>'' @
     ''\<newline>'' @
     ''**For each question, provide:**\<newline>'' @
     ''1.  The full text of the question.\<newline>'' @
     ''2.  A concise summary of the candidate\'s relevant response from the transcript.\<newline>'' @
     ''3.  A score for the response (out of 10), considering the following criteria:\<newline>'' @
     ''    -   **Relevance:** How directly did the candidate answer the question?\<newline>'' @
     ''    -   **Depth/Specificity:** How detailed and specific was the answer? '' @
     ''Did it provide concrete examples?\<newline>'' @
     ''    -   **Technical Accuracy:** If technical, was the information accurate '' @
     ''and well-explained?\<newline>'' @
     ''    -   **Clarity/Articulation:** How clear and well-articulated was the '' @
     ''response?\<newline>'' @
     ''    -   **Alignment with JD/Resume:** How well did the response demonstrate '' @
     ''skills/experience relevant to the JD and mentioned in the resume?\<newline>'' @
     ''4.  A **brief rationale** (1-2 sentences) for the score, highlighting strengths '' @
     ''and weaknesses of the response.\<newline>'' @
     ''\<newline>'' @
     ''**After evaluating all individual questions, provide an overall assessment:**\<newline>'' @
     ''5.  An **Overall Interview Performance Score** (out of 100), based on all '' @
     ''responses.\<newline>'' @
     ''6.  A **Concise Overall Summary** (2-4 sentences) of the candidate\'s interview '' @
     ''performance, highlighting key strengths and areas (if any) where the interview '' @
     ''performance could have been stronger, considering the JD and Resume.\<newline>'' @
     ''\<newline>'' @
     ''**IMPORTANT:** If a question was listed as \'asked\' but no clear answer is '' @
     ''present in the transcript for that specific question, indicate \'No clear '' @
     ''response found\' for the summary and score 0/10 with rationale.\<newline>'' @
     ''\<newline>'' @
     ''--- QUESTIONS ASKED IN INTERVIEW ---\<newline>'' @
     questions_list_formatted @
     ''\<newline>'' @
     ''\<newline>'' @
     ''--- INTERVIEW TRANSCRIPT ---\<newline>'' @
     conversation_transcript @
     ''\<newline>'' @
     ''\<newline>'' @
     ''--- JOB DESCRIPTION ---\<newline>'' @
     jd_text @
     ''\<newline>'' @
     ''\<newline>'' @
     ''--- CANDIDATE RESUME ---\<newline>'' @
     resume_text @
     ''\<newline>'' @
     ''\<newline>'' @
     ''**OUTPUT FORMAT (Strict Adherence):**\<newline>'' @
     ''--- EVALUATION START ---\<newline>'' @
     ''Question: [Full text of question 1]\<newline>'' @
     ''Response Summary: [Concise summary of candidate\'s relevant answer]\<newline>'' @
     ''Score: X/10\<newline>'' @
     ''Rationale: [Brief explanation for score based on criteria]\<newline>'' @
     ''---\<newline>'' @
     ''Question: [Full text of question 2]\<newline>'' @
     ''Response Summary: [Concise summary of candidate\'s relevant answer]\<newline>'' @
     ''Score: Y/10\<newline>'' @
     ''Rationale: [Brief explanation for score based on criteria]\<newline>'' @
     ''---\<newline>'' @
     ''...\<newline>'' @
     ''--- OVERALL INTERVIEW PERFORMANCE ---\<newline>'' @
     ''Overall Score: Z/100\<newline>'' @
     ''Overall Summary: [Concise 2-4 sentence summary of performance]\<newline>'' @
     ''--- EVALUATION END ---''\<close>

definition evaluation_system :: string where
  \<open>evaluation_system =
     ''You are an expert interview evaluator, highly skilled at analyzing interview '' @
     ''transcripts, summarizing responses, and providing precise scores and rationales '' @
     ''based on job descriptions and resumes.''\<close>

definition evaluation_request ::
  "string \<Rightarrow> string list \<Rightarrow> string \<Rightarrow> string \<Rightarrow> string \<Rightarrow> request" where
  "evaluation_request deployment_name all_questions_asked conversation_transcript jd_text
       resume_text =
     \<lparr>model = deployment_name,
      messages = [(''system'', evaluation_system),
                  (''user'', evaluation_prompt (numbered_list all_questions_asked)
                               conversation_transcript jd_text resume_text)],
      max_tokens = 3500\<rparr>"

text \<open>\<open>Overall Score:\s*(\d+)/100\<close>\<close>

definition eval_score_re :: regex where
  "eval_score_re =
     cat [lit ''Overall Score:'', Star True WS, Grp 1 (Plus True DIGIT), lit ''/100'']"

text \<open>\<open>Overall Summary:\s*(.*?)(?=\n--- EVALUATION END ---|$)\<close>, with \<open>re.DOTALL\<close>\<close>

definition eval_summary_re :: regex where
  "eval_summary_re =
     cat [lit ''Overall Summary:'', Star True WS, Grp 1 (Star False Dot),
          Ahead (Alt (Seq (Chr NL) (lit ''--- EVALUATION END ---'')) Eol)]"

text \<open>
  \<open>Question: (.*?)\nResponse Summary: (.*?)\nScore: (\d+)/10\nRationale: (.*?)\<close>
  \<open>(?=\n---\n|--- OVERALL INTERVIEW PERFORMANCE ---|$)\<close>, with \<open>re.DOTALL\<close>
\<close>

definition eval_block_re :: regex where
  "eval_block_re =
     cat [lit ''Question: '', Grp 1 (Star False Dot),
          Chr NL, lit ''Response Summary: '', Grp 2 (Star False Dot),
          Chr NL, lit ''Score: '', Grp 3 (Plus True DIGIT), lit ''/10'',
          Chr NL, lit ''Rationale: '', Grp 4 (Star False Dot),
          Ahead (Alt (cat [Chr NL, lit ''---'', Chr NL])
                (Alt (lit ''--- OVERALL INTERVIEW PERFORMANCE ---'') Eol))]"

record evaluation =
  question :: string
  response_summary :: string
  score :: int
  rationale :: string

record evaluation_result =
  individual_evaluations :: "evaluation list"
  overall_interview_score :: int
  overall_interview_summary :: string

fun evaluations_loop ::
  "(string \<times> string \<times> string \<times> string) list \<Rightarrow> py_error + evaluation list" where
  "evaluations_loop [] = Inr []"
| "evaluations_loop ((b0, b1, b2, b3) # individual_blocks) =
     (case py_int b2 of Inl e \<Rightarrow> Inl e
      | Inr v \<Rightarrow>
          (case evaluations_loop individual_blocks of Inl e \<Rightarrow> Inl e
           | Inr others \<Rightarrow>
               Inr (\<lparr>question = strip b0, response_summary = strip b1, score = v,
                     rationale = strip b3\<rparr> # others)))"

definition eval_overall_score_of :: "string \<Rightarrow> py_error + int" where
  "eval_overall_score_of response_text =
     (case re_search no_flags eval_score_re response_text of
        None \<Rightarrow> Inr 0
      | Some m \<Rightarrow> (case group m 1 of None \<Rightarrow> Inl TypeError | Some g \<Rightarrow> py_int g))"

definition eval_overall_summary_of :: "string \<Rightarrow> py_error + string" where
  "eval_overall_summary_of response_text =
     (case re_search (Flags False True) eval_summary_re response_text of
        None \<Rightarrow> Inr ''N/A''
      | Some m \<Rightarrow> (case group m 1 of None \<Rightarrow> Inl AttributeError | Some g \<Rightarrow> Inr (strip g)))"

definition parse_evaluation_response :: "string \<Rightarrow> py_error + evaluation_result" where
  "parse_evaluation_response raw_text =
     (let response_text = strip raw_text in
      case eval_overall_score_of response_text of Inl e \<Rightarrow> Inl e
      | Inr overall \<Rightarrow>
     (case eval_overall_summary_of response_text of Inl e \<Rightarrow> Inl e
      | Inr summary \<Rightarrow>
     (case evaluations_loop (re_findall4 (Flags False True) eval_block_re response_text) of
        Inl e \<Rightarrow> Inl e
      | Inr evaluations \<Rightarrow>
          Inr \<lparr>individual_evaluations = evaluations,
               overall_interview_score = overall,
               overall_interview_summary = summary\<rparr>)))"

text \<open>
  The function returns at once, before anything else, when no question was asked.
\<close>

definition evaluate_candidate_responses_holistically ::
  "'w client \<Rightarrow> string \<Rightarrow> string list \<Rightarrow> string \<Rightarrow> string \<Rightarrow> string \<Rightarrow> 'w \<Rightarrow>
   (http_exception + evaluation_result) \<times> 'w" where
  "evaluate_candidate_responses_holistically client deployment_name all_questions_asked
       conversation_transcript jd_text resume_text w =
     (if all_questions_asked = [] then
        (Inr \<lparr>individual_evaluations = [],
              overall_interview_score = 0,
              overall_interview_summary = ''No questions were asked or evaluated.''\<rparr>, w)
      else
        (case client (evaluation_request deployment_name all_questions_asked
                        conversation_transcript jd_text resume_text) w of
           (Inl e, w') \<Rightarrow>
             (Inl (HTTPException 500 ''Error during holistic response evaluation: '' e), w')
         | (Inr response_text, w') \<Rightarrow>
             (case parse_evaluation_response response_text of
                Inl e \<Rightarrow>
                  (Inl (HTTPException 500 ''Error during holistic response evaluation: '' e), w')
              | Inr result \<Rightarrow> (Inr result, w'))))"

section \<open>Session state of the Streamlit front end (streamlit\_app/utils.py, app.py)\<close>

text \<open>
  The front end keeps its results in \<open>st.session_state\<close>.  The record below holds the
  fields that the change-detection block of \<open>app.py\<close> and the three clearing functions of
  \<open>utils.py\<close> read or write.  A result that is \<open>None\<close> in Python is \<open>None\<close> here; the
  payloads of the results are opaque to this part of the program and stay polymorphic.
  A file hash is the hex digest returned by \<open>get_file_hash\<close>, or \<open>None\<close> when no file
  is uploaded.
\<close>

record ('score, 'det, 'cov, 'ev) session_state =
  jd_analysis_results :: "'score option"
  ai_detection_results :: "'det option"
  interview_analysis_results :: "'cov option"
  candidate_evaluation_results :: "'ev option"
  conversation_history :: "(string \<times> string) list"
  job_description_text :: string
  candidate_resume_text :: string
  last_shared_resume_hash :: "string option"
  last_jd_hash :: "string option"
  last_conversation_transcript_hash :: "string option"

definition clear_all_analysis_state ::
  "('s, 'd, 'c, 'e) session_state \<Rightarrow> ('s, 'd, 'c, 'e) session_state" where
  "clear_all_analysis_state st =
     st\<lparr>jd_analysis_results := None,
        ai_detection_results := None,
        interview_analysis_results := None,
        candidate_evaluation_results := None,
        conversation_history := [],
        job_description_text := [],
        candidate_resume_text := []\<rparr>"

definition clear_jd_dependent_analysis_state ::
  "('s, 'd, 'c, 'e) session_state \<Rightarrow> ('s, 'd, 'c, 'e) session_state" where
  "clear_jd_dependent_analysis_state st =
     st\<lparr>jd_analysis_results := None,
        interview_analysis_results := None,
        candidate_evaluation_results := None,
        conversation_history := [],
        job_description_text := []\<rparr>"

definition clear_interview_related_state ::
  "('s, 'd, 'c, 'e) session_state \<Rightarrow> ('s, 'd, 'c, 'e) session_state" where
  "clear_interview_related_state st =
     st\<lparr>interview_analysis_results := None,
        candidate_evaluation_results := None,
        conversation_history := []\<rparr>"

text \<open>
  The \<open>if / elif / elif\<close> chain of \<open>app.py\<close> that runs on every rerun of the script.  Its
  inputs are the hashes of the three uploaded files; it returns the new session state
  and the \<open>st.info\<close> notices it showed.
\<close>

definition handle_file_changes ::
  "string option \<Rightarrow> string option \<Rightarrow> string option \<Rightarrow>
   ('s, 'd, 'c, 'e) session_state \<Rightarrow> ('s, 'd, 'c, 'e) session_state \<times> string list" where
  "handle_file_changes current_shared_resume_hash current_jd_hash
       current_conversation_transcript_hash st =
     (if current_shared_resume_hash \<noteq> last_shared_resume_hash st then
        ((clear_all_analysis_state st)
           \<lparr>last_shared_resume_hash := current_shared_resume_hash,
            last_jd_hash := None,
            last_conversation_transcript_hash := None\<rparr>,
         if last_shared_resume_hash st \<noteq> None
         then [''New resume file detected. Clearing all previous analysis results for a new candidate scenario.'']
         else [])
      else if current_jd_hash \<noteq> last_jd_hash st then
        ((clear_jd_dependent_analysis_state st)\<lparr>last_jd_hash := current_jd_hash\<rparr>,
         if last_jd_hash st \<noteq> None
         then [''New Job Description detected. Clearing previous JD-dependent analysis results.'']
         else [])
      else if current_conversation_transcript_hash \<noteq> last_conversation_transcript_hash st then
        ((clear_interview_related_state st)
           \<lparr>last_conversation_transcript_hash := current_conversation_transcript_hash\<rparr>,
         if last_conversation_transcript_hash st \<noteq> None
         then [''New Interview Transcript detected. Clearing previous interview analysis and evaluation results.'']
         else [])
      else (st, []))"

section \<open>Notions used to state the properties\<close>

text \<open>
  \<open>binds r n\<close>: every successful match of \<open>r\<close> binds group \<open>n\<close>.
\<close>

fun binds :: "regex \<Rightarrow> nat \<Rightarrow> bool" where
  "binds (Grp k r) n = (k = n \<or> binds r n)"
| "binds (Seq a b) n = (binds a n \<or> binds b n)"
| "binds (Alt a b) n = (binds a n \<and> binds b n)"
| "binds (Ahead r) n = binds r n"
| "binds _ n = False"

text \<open>A non-empty string without white space at its ends.\<close>

definition stripped :: "string \<Rightarrow> bool" where
  "stripped q = (q \<noteq> [] \<and> \<not> is_space (hd q) \<and> \<not> is_space (last q))"

text \<open>\<open>p in s\<close>: the string \<open>p\<close> occurs in \<open>s\<close>.\<close>

fun contains :: "string \<Rightarrow> string \<Rightarrow> bool" where
  "contains [] p = (p = [])"
| "contains (c # cs) p = (startswith (c # cs) p \<or> contains cs p)"








text \<open>
  The list-section extraction in the words of the specification: the lines after the
  header line, up to the next line that begins with an all-caps header (capital letters
  and underscores followed by a colon) or to the end of the text; of these, the lines
  that begin with the bullet marker \<open>- \<close>, without the marker and stripped.
\<close>

definition is_header_line :: "string \<Rightarrow> bool" where
  "is_header_line l =
     (let h = takeWhile (\<lambda>c. c \<noteq> CHR '':'') l
      in h \<noteq> [] \<and> length h < length l \<and>
         list_all (\<lambda>c. in_range (CHR ''A'') (CHR ''Z'') c \<or> c = CHR ''_'') h)"

definition spec_list_section :: "string \<Rightarrow> string \<Rightarrow> string list" where
  "spec_list_section header text_content =
     (case dropWhile (\<lambda>l. \<not> startswith l (header @ '':'')) (split_on NL text_content) of
        [] \<Rightarrow> []
      | h # following \<Rightarrow>
          map (\<lambda>l. strip (drop 2 l))
              (filter (\<lambda>l. startswith l ''- '')
                      (takeWhile (\<lambda>l. \<not> is_header_line l) following)))"



section \<open>Facts about the matcher\<close>

lemma step_char_groups: "e \<in> set (step_char p s) \<Longrightarrow> groups e = groups s"
  by (cases "rest s") (auto simp: step_char_def split: if_splits)

lemma ms_binds:
  "e \<in> set (ms fl r s) \<Longrightarrow> binds r n \<or> n \<in> fst ` set (groups s) \<Longrightarrow> n \<in> fst ` set (groups e)"
proof (induction fl r s arbitrary: e rule: ms.induct)
  case (1 fl c s)
  then show ?case by (auto dest!: step_char_groups)
next
  case (2 fl s)
  then show ?case by (auto dest!: step_char_groups)
next
  case (3 fl items s)
  then show ?case by (auto dest!: step_char_groups)
next
  case (8 fl a b s)
  then obtain m where m: "m \<in> set (ms fl a s)" "e \<in> set (ms fl b m)" by auto
  show ?case
  proof (cases "binds b n")
    case True
    with "8.IH"(2)[OF m(1) m(2)] show ?thesis by simp
  next
    case False
    with "8.prems"(2) have "binds a n \<or> n \<in> fst ` set (groups s)" by simp
    from "8.IH"(1)[OF m(1) this] "8.IH"(2)[OF m(1) m(2)] show ?thesis by simp
  qed
next
  case (9 fl a b s)
  then show ?case by auto
next
  case (10 fl g r s)
  from "10.prems"(2) have n: "n \<in> fst ` set (groups s)" by simp
  from "10.prems"(1) have "e = s \<or> (\<exists>m \<in> set (ms fl r s).
      length (rest m) < length (rest s) \<and> e \<in> set (ms fl (Star g r) m))"
    by (auto simp: ms_Star[of fl g r s] Let_def split: if_splits)
  then show ?case
  proof
    assume "e = s"
    with n show ?thesis by simp
  next
    assume "\<exists>m \<in> set (ms fl r s).
      length (rest m) < length (rest s) \<and> e \<in> set (ms fl (Star g r) m)"
    then obtain m where m: "m \<in> set (ms fl r s)" "length (rest m) < length (rest s)"
      "e \<in> set (ms fl (Star g r) m)" by blast
    from "10.IH"(1)[OF m(1)] n have "n \<in> fst ` set (groups m)" by simp
    with "10.IH"(2)[OF m(1) m(2) m(3)] show ?thesis by simp
  qed
next
  case (11 fl k r s)
  then obtain m where m: "m \<in> set (ms fl r s)"
    "groups e = (k, consumed s m) # groups m" by auto
  show ?case
  proof (cases "k = n")
    case True
    with m(2) show ?thesis by simp
  next
    case False
    with "11.prems"(2) have "binds r n \<or> n \<in> fst ` set (groups s)" by simp
    from "11.IH"[OF m(1) this] m(2) show ?thesis by simp
  qed
next
  case (12 fl r s)
  from "12.prems"(1) obtain m ms' where m: "ms fl r s = m # ms'" "groups e = groups m"
    by (cases "ms fl r s") auto
  then have "m \<in> set (ms fl r s)" by simp
  from "12.IH"[OF this] "12.prems"(2) m(2) show ?case by simp
qed (auto split: if_splits list.splits)

lemma search_groups:
  "search fl r adv s = Some (b, e) \<Longrightarrow> groups s = [] \<Longrightarrow> groups b = []"
proof (induction fl r adv s rule: search.induct)
  case (1 fl r adv s)
  show ?case
  proof (cases "find (\<lambda>e. \<not> adv \<or> length (rest e) < length (rest s)) (ms fl r s)")
    case (Some e')
    with "1.prems" show ?thesis by (simp add: search.simps[of fl r adv s])
  next
    case None
    with "1.prems" obtain x xs where xs: "rest s = x # xs"
      and rec: "search fl r False (MState (Some x) xs []) = Some (b, e)"
      by (auto simp: search.simps[of fl r adv s] split: list.splits)
    from "1.IH"[OF None xs rec] show ?thesis by simp
  qed
qed

lemma finditer_sound:
  "m \<in> set (finditer_from fl r adv s) \<Longrightarrow> snd m \<in> set (ms fl r (fst m))"
proof (induction fl r adv s rule: finditer_from.induct)
  case (1 fl r adv s)
  show ?case
  proof (cases "search fl r adv s")
    case None
    with "1.prems" show ?thesis by (simp add: finditer_from.simps[of fl r adv s])
  next
    case (Some p)
    obtain b e where p: "p = (b, e)" by (cases p)
    from "1.prems" Some p have "m = (b, e) \<or>
        m \<in> set (finditer_from fl r (length (rest e) = length (rest b)) (MState (prev e) (rest e) []))"
      by (simp add: finditer_from.simps[of fl r adv s])
    then show ?thesis
    proof
      assume "m = (b, e)"
      with search_sound[of fl r adv s b e] Some p show ?thesis by simp
    next
      assume "m \<in> set (finditer_from fl r (length (rest e) = length (rest b)) (MState (prev e) (rest e) []))"
      with "1.IH"[OF Some[unfolded p] refl] show ?thesis by simp
    qed
  qed
qed

lemma strip_stripped: "strip s \<noteq> [] \<Longrightarrow> stripped (strip s)"
proof -
  assume ne: "strip s \<noteq> []"
  define t where "t = dropWhile is_space s"
  define u where "u = dropWhile is_space (rev t)"
  have su: "strip s = rev u" by (simp add: strip_def t_def u_def)
  with ne have une: "u \<noteq> []" by simp
  then have hu: "\<not> is_space (hd u)" unfolding u_def by (rule hd_dropWhile)
  from une have tne: "t \<noteq> []" unfolding u_def by auto
  then have ht: "\<not> is_space (hd t)" unfolding t_def by (rule hd_dropWhile)
  have "rev t = takeWhile is_space (rev t) @ u" by (simp add: u_def)
  with une have "last (rev t) = last u" by (metis last_appendR)
  with tne have lu: "last u = hd t" by (simp add: last_rev)
  from une have "hd (rev u) = last u" by (simp add: hd_rev)
  moreover from une have "last (rev u) = hd u" by (simp add: last_rev)
  ultimately show ?thesis using su une hu ht lu by (simp add: stripped_def)
qed

lemma parsed_matches_total:
  "(\<And>m. m \<in> set matches \<Longrightarrow> group m 1 \<noteq> None) \<Longrightarrow>
   \<exists>qs. parsed_matches_of matches = Inr qs \<and> (\<forall>q \<in> set qs. stripped q)"
proof (induction matches)
  case Nil
  then show ?case by simp
next
  case (Cons m matches)
  then obtain qs where qs: "parsed_matches_of matches = Inr qs" "\<forall>q \<in> set qs. stripped q"
    by auto
  have "group m 1 \<noteq> None" by (rule Cons.prems) simp
  then obtain g where g: "group m 1 = Some g" by blast
  with qs show ?case by (auto simp: strip_stripped)
qed

lemma fallback_stripped:
  "q \<in> set (fallback_questions ls) \<Longrightarrow> q \<noteq> [] \<Longrightarrow> stripped q"
  by (induction ls) (auto simp: Let_def strip_stripped split: if_splits)

lemma question_re_binds: "binds question_re 1"
  by (simp add: question_re_def)

subsection \<open>literals, classes and repetition\<close>

lemma startswith_Nil [simp]: "startswith s []"
  by (simp add: startswith_def)

lemma startswith_Cons: "startswith s (c # p) = (case s of [] \<Rightarrow> False | x # xs \<Rightarrow> x = c \<and> startswith xs p)"
  by (cases s) (auto simp: startswith_def)


lemma ms_lit:
  "ms fl (lit p) s =
     (if startswith (rest s) p
      then [MState (if p = [] then prev s else Some (last p)) (drop (length p) (rest s)) (groups s)]
      else [])"
proof (induction p arbitrary: s)
  case Nil
  then show ?case by simp
next
  case (Cons c p)
  show ?case
  proof (cases "rest s")
    case Nil
    then show ?thesis by (simp add: step_char_def startswith_Cons)
  next
    case (Cons x xs)
    then show ?thesis
      by (simp add: step_char_def startswith_Cons Cons.IH)
  qed
qed

lemma ms_Seq_lit_fail: "\<not> startswith (rest s) p \<Longrightarrow> ms fl (Seq (lit p) r) s = []"
  by (simp add: ms_lit)

lemma contains_startswith: "startswith s p \<Longrightarrow> contains s p"
  by (cases s) (auto simp: startswith_def)






declare lit.simps [simp del]

lemma binds_lit [simp]: "\<not> binds (lit p) n"
  by (induction p) (simp_all add: lit.simps)












subsection \<open>overall score: the pattern against a direct scan\<close>











subsection \<open>criteria lines\<close>













subsection \<open>the scoring response is always parsed\<close>










subsection \<open>the first match of the bullet block\<close>





lemma concat_map_first:
  "xs = x # xs' \<Longrightarrow> f x = y # ys \<Longrightarrow> \<exists>tl. concat (map f xs) = y # tl"
  by simp










section \<open>Properties of the resume scoring\<close>















section \<open>Properties of the coverage analysis\<close>

text \<open>
  Claim C8.  The pattern of \<open>parse_section\<close> has a lookahead for the next all-caps header,
  but under \<open>re.DOTALL\<close> the greedy \<open>.*\<close> of the first bullet runs to the end of the text,
  where the alternative \<open>$\<close> of the lookahead holds, so the captured span never stops at
  the next header.  On the response below, the covered section is followed by the
  uncovered section: the specification's extraction gives \<open>[Q1]\<close>, the function returns
  \<open>[Q1, Q2]\<close>.
\<close>

theorem parse_section_runs_past_next_header:
  "parse_section ''COVERED_GENERATED_QUESTIONS''
     ''COVERED_GENERATED_QUESTIONS:\<newline>- Q1\<newline>\<newline>UNCOVERED_GENERATED_QUESTIONS:\<newline>- Q2''
     = Inr [''Q1'', ''Q2''] \<and>
   spec_list_section ''COVERED_GENERATED_QUESTIONS''
     ''COVERED_GENERATED_QUESTIONS:\<newline>- Q1\<newline>\<newline>UNCOVERED_GENERATED_QUESTIONS:\<newline>- Q2''
     = [''Q1'']"
  by code_simp

section \<open>Properties of the question parser\<close>


text \<open>
  Claim C10.  For every input text the parser returns a list (it raises nothing), and
  every element of the list is a non-empty string without leading or trailing white
  space, whether it comes from the numbered pattern or from the fallback over the lines.
\<close>

theorem parsed_questions_stripped:
  "\<exists>qs. parse_generated_questions question_text = Inr qs \<and> (\<forall>q \<in> set qs. stripped q)"
proof -
  have "group m 1 \<noteq> None" if "m \<in> set (re_finditer (Flags True True) question_re question_text)" for m
  proof -
    from that have "snd m \<in> set (ms (Flags True True) question_re (fst m))"
      unfolding re_finditer_def by (rule finditer_sound)
    from ms_binds[OF this, of 1] question_re_binds
    have "1 \<in> fst ` set (groups (snd m))" by simp
    then show ?thesis by (simp add: group_def map_of_eq_None_iff)
  qed
  from parsed_matches_total[of "re_finditer (Flags True True) question_re question_text", OF this]
  obtain qs where qs: "parsed_matches_of (re_finditer (Flags True True) question_re question_text) = Inr qs"
    "\<forall>q \<in> set qs. stripped q" by blast
  then show ?thesis
    by (auto simp: parse_generated_questions_def fallback_stripped)
qed

theorem parsed_questions_stripped_witness:
  "parse_generated_questions '' 1) foo\<newline>\<newline>2) bar '' = Inr [''foo'', ''bar''] \<and>
   parse_generated_questions '' first \<newline>\<newline>2.  second '' = Inr [''second''] \<and>
   parse_generated_questions '' first \<newline>\<newline>  second '' = Inr [''first'', ''second''] \<and>
   stripped ''foo'' \<and> stripped ''bar'' \<and> stripped ''first'' \<and> stripped ''second''"
proof -
  have a: "parse_generated_questions '' 1) foo\<newline>\<newline>2) bar '' = Inr [''foo'', ''bar'']"
    by code_simp
  have b: "parse_generated_questions '' first \<newline>\<newline>2.  second '' = Inr [''second'']"
    by code_simp
  have c: "parse_generated_questions '' first \<newline>\<newline>  second '' = Inr [''first'', ''second'']"
    by code_simp
  from parsed_questions_stripped [of "'' 1) foo\<newline>\<newline>2) bar ''"]
    parsed_questions_stripped [of "'' first \<newline>\<newline>  second ''"] a b c
  show ?thesis by simp
qed

section \<open>Properties of the response evaluation\<close>

text \<open>
  Claim C2.  With an empty list of questions the function returns the sentinel result,
  whose overall score is 0 and whose list of evaluations is empty, and it leaves the
  state of the completion service as it was, whatever the service is: the service is
  not called.
\<close>

theorem evaluate_no_questions:
  "evaluate_candidate_responses_holistically client deployment_name []
       conversation_transcript jd_text resume_text w =
     (Inr \<lparr>individual_evaluations = [], overall_interview_score = 0,
           overall_interview_summary = ''No questions were asked or evaluated.''\<rparr>, w)"
  by (simp add: evaluate_candidate_responses_holistically_def)

text \<open>
  An instance with a service that counts its calls: no call for the empty list, one call
  for a list of one question.
\<close>

theorem evaluate_no_questions_witness:
  "snd (evaluate_candidate_responses_holistically (\<lambda>req n. (Inr ''Overall Score: 70/100'', Suc n))
          ''gpt'' [] ''transcript'' ''jd'' ''resume'' (0::nat)) = 0 \<and>
   map_sum id overall_interview_score
     (fst (evaluate_candidate_responses_holistically (\<lambda>req n. (Inr ''Overall Score: 70/100'', Suc n))
          ''gpt'' [] ''transcript'' ''jd'' ''resume'' (0::nat))) = Inr 0 \<and>
   snd (evaluate_candidate_responses_holistically (\<lambda>req n. (Inr ''Overall Score: 70/100'', Suc n))
          ''gpt'' [''Why?''] ''transcript'' ''jd'' ''resume'' (0::nat)) = 1"
  using evaluate_no_questions [of "\<lambda>req n. (Inr ''Overall Score: 70/100'', Suc n)"
          "''gpt''" "''transcript''" "''jd''" "''resume''" "0::nat"]
  by (simp add: evaluate_candidate_responses_holistically_def split: sum.splits)

section \<open>Properties of the session state machine\<close>

text \<open>
  Claim C7.  When the hash of the resume file differs from the remembered one, the rerun
  clears every dependent stage result, the AI-detection result included.  When the resume
  hash is unchanged and only the hash of the job description differs, the rerun clears the
  scoring, coverage and evaluation results and the conversation history, and the
  AI-detection result is the one held before.
\<close>

theorem file_change_resets:
  "(rh \<noteq> last_shared_resume_hash st \<longrightarrow>
      (let st' = fst (handle_file_changes rh jh th st) in
         jd_analysis_results st' = None \<and> ai_detection_results st' = None \<and>
         interview_analysis_results st' = None \<and> candidate_evaluation_results st' = None \<and>
         conversation_history st' = [])) \<and>
   (rh = last_shared_resume_hash st \<and> jh \<noteq> last_jd_hash st \<longrightarrow>
      (let st' = fst (handle_file_changes rh jh th st) in
         jd_analysis_results st' = None \<and>
         interview_analysis_results st' = None \<and> candidate_evaluation_results st' = None \<and>
         conversation_history st' = [] \<and>
         ai_detection_results st' = ai_detection_results st))"
  by (simp add: handle_file_changes_def clear_all_analysis_state_def
      clear_jd_dependent_analysis_state_def Let_def)

theorem file_change_resets_witness:
  "Some ''r2'' \<noteq> last_shared_resume_hash
      \<lparr>jd_analysis_results = Some (1::nat), ai_detection_results = Some (2::nat),
       interview_analysis_results = Some (3::nat), candidate_evaluation_results = Some (4::nat),
       conversation_history = [(''user'', ''hi'')], job_description_text = ''jd'',
       candidate_resume_text = ''cv'', last_shared_resume_hash = Some ''r1'',
       last_jd_hash = Some ''j1'', last_conversation_transcript_hash = None\<rparr> \<and>
   ai_detection_results (fst (handle_file_changes (Some ''r2'') (Some ''j1'') None
      \<lparr>jd_analysis_results = Some (1::nat), ai_detection_results = Some (2::nat),
       interview_analysis_results = Some (3::nat), candidate_evaluation_results = Some (4::nat),
       conversation_history = [(''user'', ''hi'')], job_description_text = ''jd'',
       candidate_resume_text = ''cv'', last_shared_resume_hash = Some ''r1'',
       last_jd_hash = Some ''j1'', last_conversation_transcript_hash = None\<rparr>)) = None \<and>
   Some ''j2'' \<noteq> last_jd_hash
      \<lparr>jd_analysis_results = Some (1::nat), ai_detection_results = Some (2::nat),
       interview_analysis_results = Some (3::nat), candidate_evaluation_results = Some (4::nat),
       conversation_history = [(''user'', ''hi'')], job_description_text = ''jd'',
       candidate_resume_text = ''cv'', last_shared_resume_hash = Some ''r1'',
       last_jd_hash = Some ''j1'', last_conversation_transcript_hash = None\<rparr> \<and>
   jd_analysis_results (fst (handle_file_changes (Some ''r1'') (Some ''j2'') None
      \<lparr>jd_analysis_results = Some (1::nat), ai_detection_results = Some (2::nat),
       interview_analysis_results = Some (3::nat), candidate_evaluation_results = Some (4::nat),
       conversation_history = [(''user'', ''hi'')], job_description_text = ''jd'',
       candidate_resume_text = ''cv'', last_shared_resume_hash = Some ''r1'',
       last_jd_hash = Some ''j1'', last_conversation_transcript_hash = None\<rparr>)) = None \<and>
   ai_detection_results (fst (handle_file_changes (Some ''r1'') (Some ''j2'') None
      \<lparr>jd_analysis_results = Some (1::nat), ai_detection_results = Some (2::nat),
       interview_analysis_results = Some (3::nat), candidate_evaluation_results = Some (4::nat),
       conversation_history = [(''user'', ''hi'')], job_description_text = ''jd'',
       candidate_resume_text = ''cv'', last_shared_resume_hash = Some ''r1'',
       last_jd_hash = Some ''j1'', last_conversation_transcript_hash = None\<rparr>)) = Some 2"
  using file_change_resets [of "Some ''r2''"
      "\<lparr>jd_analysis_results = Some (1::nat), ai_detection_results = Some (2::nat),
       interview_analysis_results = Some (3::nat), candidate_evaluation_results = Some (4::nat),
       conversation_history = [(''user'', ''hi'')], job_description_text = ''jd'',
       candidate_resume_text = ''cv'', last_shared_resume_hash = Some ''r1'',
       last_jd_hash = Some ''j1'', last_conversation_transcript_hash = None\<rparr>"
      "Some ''j1''" None]
    file_change_resets [of "Some ''r1''"
      "\<lparr>jd_analysis_results = Some (1::nat), ai_detection_results = Some (2::nat),
       interview_analysis_results = Some (3::nat), candidate_evaluation_results = Some (4::nat),
       conversation_history = [(''user'', ''hi'')], job_description_text = ''jd'',
       candidate_resume_text = ''cv'', last_shared_resume_hash = Some ''r1'',
       last_jd_hash = Some ''j1'', last_conversation_transcript_hash = None\<rparr>"
      "Some ''j2''" None]
  by (simp add: Let_def)

end
